theory Spec2Isabelle
  imports Main "HOL-Library.Sublist"
begin

section \<open>Customization selection of the code-suggestion feature\<close>

text \<open>
  A shallow embedding of \<^verbatim>\<open>packages/core/src/codewhisperer/util/customizationUtil.ts\<close>.
  The module is sequential glue around a key-value store, a remote listing service and
  a few notifications. Every \<^verbatim>\<open>async\<close> function of the module is awaited by its
  caller, so the functions below pass the state explicitly and return it updated; what
  the code shows or logs is appended to the \<open>effects\<close> of the state in the order of the
  calls. The setters of the section on selection and snapshot give the state a call
  leaves when the key-value store accepts its writes; the section on rejected writes adds
  the store that rejects a write, for the caller whose behaviour depends on it.
  \<^verbatim>\<open>localize\<close> is taken to yield its default text.
\<close>

subsection \<open>Data\<close>

text \<open>
  \<^verbatim>\<open>RegionProfile\<close> (imported from \<^verbatim>\<open>models/model\<close>): the fields the module reads.
\<close>

record regionProfile =
  profileName :: string
  profileRegion :: string
  profileArn :: string

text \<open>
  \<^verbatim>\<open>Customization\<close> (imported from the service client). The module tests
  \<^verbatim>\<open>customization.name\<close> for truthiness and tags a listed customization with its
  profile (\<^verbatim>\<open>{ ...c, profile: profile }\<close>), so \<open>name\<close>, \<open>description\<close> and \<open>profile\<close>
  are properties that may be missing; \<open>arn\<close> is always a string.
\<close>

record customization =
  arn :: string
  name :: "string option"
  description :: "string option"
  profile :: "regionProfile option"

text \<open>What a thrown value looks like to the module: \<^verbatim>\<open>isAwsError(e)\<close> or a plain \<^verbatim>\<open>Error\<close>.\<close>

datatype error =
    AwsError (requestId: string) (awsMessage: string)
  | Error (message: string)

datatype 'a outcome = Returned 'a | Thrown error

text \<open>\<^verbatim>\<open>ProfileChangedEvent\<close>: the reason of the change and the new profile, if any.\<close>

record profileChangedEvent =
  intent :: string
  eventProfile :: "regionProfile option"

text \<open>
  The item of the picker. \<^verbatim>\<open>onClick\<close> is a closure in the source; here it is the data
  the closure captures, run by \<open>onClick\<close> further down.
\<close>

datatype clickAction = ClickBase | ClickCustomization customization

record dataQuickPickItem =
  label :: string
  click :: clickAction
  detail :: "string option"
  itemDescription :: string
  data :: "string option"
  recentlyUsed :: bool

datatype logArg = StrArg string | ErrArg error

datatype effect =
    LogError string "logArg list"
  | LogDebug string
  | ExecuteCommand string
  | ShowWarningMessage string "string list"
  | ShowInformationMessage string "string list"
  | ShowMessageWithUrl string string string
  | ShowQuickPick "dataQuickPickItem list"
  | SwitchRegionProfile regionProfile string

text \<open>
  The state the module reads and writes: the flags of \<^verbatim>\<open>AuthUtil.instance\<close>, the four
  keys of \<^verbatim>\<open>globals.globalState\<close> and \<^verbatim>\<open>vsCodeState.isFreeTierLimitReached\<close>.
  \<open>conn\<close> is the label of \<^verbatim>\<open>AuthUtil.instance.conn\<close>, \<open>None\<close> when there is no connection.
\<close>

record state =
  isCustomizationFeatureEnabled :: bool
  isValidEnterpriseSsoInUse :: bool
  conn :: "string option"
  activeRegionProfile :: "regionProfile option"
  selectedCustomizationStore :: "string \<rightharpoonup> customization"
  overrideV2 :: "string option"
  persistedCustomizationsStore :: "string \<rightharpoonup> customization list"
  newCustomizations :: nat
  isFreeTierLimitReached :: bool
  effects :: "effect list"

definition emit :: "effect \<Rightarrow> state \<Rightarrow> state" where
  "emit e s = s\<lparr>effects := effects s @ [e]\<rparr>"

text \<open>A template literal prints a missing property as \<^verbatim>\<open>undefined\<close>.\<close>

definition str :: "string option \<Rightarrow> string" where
  "str x = (case x of None \<Rightarrow> ''undefined'' | Some v \<Rightarrow> v)"

text \<open>Truthiness of an optional string: present and not empty.\<close>

definition truthy :: "string option \<Rightarrow> bool" where
  "truthy x = (case x of None \<Rightarrow> False | Some v \<Rightarrow> v \<noteq> [])"

subsection \<open>Selection and snapshot\<close>

definition baseCustomization :: customization where
  "baseCustomization =
     \<lparr>arn = [],
      name = Some ''Amazon Q foundation (Default)'',
      description = Some ''Receive suggestions from Amazon Q base model'',
      profile = None\<rparr>"

definition isSelectedCustomizationAvailable :: "customization list \<Rightarrow> customization \<Rightarrow> bool" where
  "isSelectedCustomizationAvailable available selected =
     (arn selected = [] \<or> arn selected \<in> set (map arn available))"

definition getSelectedCustomization :: "state \<Rightarrow> customization" where
  "getSelectedCustomization s =
     (if \<not> isCustomizationFeatureEnabled s \<or> \<not> isValidEnterpriseSsoInUse s \<or> conn s = None
      then baseCustomization
      else case conn s of
        None \<Rightarrow> baseCustomization
      | Some l \<Rightarrow>
          (case selectedCustomizationStore s l of
             None \<Rightarrow> baseCustomization
           | Some selectedCustomization \<Rightarrow>
               if name selectedCustomization \<noteq> Some [] then selectedCustomization
               else baseCustomization))"

definition setSelectedCustomization :: "customization \<Rightarrow> bool \<Rightarrow> state \<Rightarrow> state" where
  "setSelectedCustomization c isOverride s =
     (if \<not> isValidEnterpriseSsoInUse s \<or> conn s = None then s
      else case conn s of
        None \<Rightarrow> s
      | Some l \<Rightarrow>
          if isOverride \<and> Some (arn c) = overrideV2 s then s
          else
            let s1 = s\<lparr>selectedCustomizationStore := (selectedCustomizationStore s)(l \<mapsto> c)\<rparr>;
                s2 = emit (LogDebug (''Selected customization '' @ str (name c) @ '' for '' @ l)) s1;
                s3 = (if isOverride then s2\<lparr>overrideV2 := Some (arn c)\<rparr> else s2);
                s4 = s3\<lparr>isFreeTierLimitReached := False\<rparr>
            in emit (ExecuteCommand ''aws.amazonq.refreshStatusBar'') s4)"

definition getPersistedCustomizations :: "state \<Rightarrow> customization list" where
  "getPersistedCustomizations s =
     (if \<not> isValidEnterpriseSsoInUse s \<or> conn s = None then []
      else case conn s of
        None \<Rightarrow> []
      | Some l \<Rightarrow> (case persistedCustomizationsStore s l of None \<Rightarrow> [] | Some cs \<Rightarrow> cs))"

definition setPersistedCustomizations :: "customization list \<Rightarrow> state \<Rightarrow> state" where
  "setPersistedCustomizations customizations s =
     (if \<not> isValidEnterpriseSsoInUse s \<or> conn s = None then s
      else case conn s of
        None \<Rightarrow> s
      | Some l \<Rightarrow>
          s\<lparr>persistedCustomizationsStore := (persistedCustomizationsStore s)(l \<mapsto> customizations)\<rparr>)"

definition getNewCustomizationsAvailable :: "state \<Rightarrow> nat" where
  "getNewCustomizationsAvailable s = newCustomizations s"

definition setNewCustomizationsAvailable :: "nat \<Rightarrow> state \<Rightarrow> state" where
  "setNewCustomizationsAvailable num s =
     s\<lparr>newCustomizations := num, isFreeTierLimitReached := False\<rparr>"

definition getNewCustomizations :: "customization list \<Rightarrow> state \<Rightarrow> customization list" where
  "getNewCustomizations availableCustomizations s =
     (let persistedCustomizations = getPersistedCustomizations s
      in filter (\<lambda>c. arn c \<notin> set (map arn persistedCustomizations))
           availableCustomizations)"

subsection \<open>The collaborators\<close>

text \<open>
  The service client answers the paged request \<^verbatim>\<open>{ profileArn }\<close>: one entry for each
  page request, the page's \<^verbatim>\<open>customizations\<close> or the error the request throws.
\<close>

type_synonym codeWhispererUserClient = "string \<Rightarrow> (error + customization list) list"

text \<open>
  What the module calls and imports from outside this file, taken as parameters:
  \<^verbatim>\<open>regionProfileManager.listRegionProfile\<close>, \<^verbatim>\<open>regionProfileManager.createQClient\<close>
  and \<^verbatim>\<open>regionProfileManager.switchRegionProfile\<close> (\<open>Some e\<close> when it throws \<open>e\<close>),
  the account id that \<^verbatim>\<open>parse\<close> of the ARN parser reads off an ARN (or the error it
  throws on a malformed one), the \<^verbatim>\<open>codicon\<close> template with the circuit-board icon
  as a function of the text after the icon, and two constants of \<^verbatim>\<open>models/constants\<close>.
  \<open>updateRejects\<close> is the key-value store answering a write: \<open>Some e\<close> when
  \<^verbatim>\<open>globals.globalState.update(key, value)\<close> rejects with \<open>e\<close> for that key.
\<close>

record env =
  listRegionProfile :: "error + regionProfile list"
  createQClient :: "regionProfile \<Rightarrow> error + codeWhispererUserClient"
  switchRegionProfileFails :: "regionProfile \<Rightarrow> error option"
  parseAccountId :: "string \<Rightarrow> error + string"
  codicon :: "string \<Rightarrow> string"
  newCustomizationMessage :: string
  customLearnMoreUri :: string
  updateRejects :: "string \<Rightarrow> error option"

text \<open>
  What the user does with the dialogs. The warning is answered by dismissing it or by its
  button \<^verbatim>\<open>Select Another Customization\<close>, which opens the picker; in the picker the user
  picks the item at an index or cancels, after answering the warning that building the
  picker's items may show first.
\<close>

datatype warningResponse = Dismissed | SelectAnother promptResponse
and promptResponse = PromptResponse warningResponse "nat option"

subsection \<open>Writes that the store rejects\<close>




definition newCustomizationsKey :: string where
  "newCustomizationsKey = ''aws.amazonq.codewhisperer.newCustomizations''"



definition awaitSetNewCustomizationsAvailable :: "env \<Rightarrow> nat \<Rightarrow> state \<Rightarrow> unit outcome \<times> state" where
  "awaitSetNewCustomizationsAvailable env num s =
     (case updateRejects env newCustomizationsKey of
        Some e \<Rightarrow> (Thrown e, s)
      | None \<Rightarrow> (Returned (), setNewCustomizationsAvailable num s))"

subsection \<open>Listing\<close>

text \<open>
  Modelled from the spec: \<^verbatim>\<open>pageableToCollection(...).flatten().promise()\<close> of
  \<^verbatim>\<open>shared/utilities/collectionUtils\<close> is not part of the sources. It requests page after
  page until the pages are exhausted and returns the full flattened list; a request that
  throws makes the whole call throw.
\<close>

fun pageableToCollection :: "(error + 'a list) list \<Rightarrow> error + 'a list" where
  "pageableToCollection [] = Inr []"
| "pageableToCollection (Inl e # rest) = Inl e"
| "pageableToCollection (Inr page # rest) =
     (case pageableToCollection rest of Inl e \<Rightarrow> Inl e | Inr xs \<Rightarrow> Inr (page @ xs))"

record customizationProvider =
  client :: codeWhispererUserClient
  providerProfile :: regionProfile
  region :: string

definition logMsg :: "error \<Rightarrow> string" where
  "logMsg e =
     (case e of
        AwsError rid m \<Rightarrow> ''requestId='' @ rid @ ''; message='' @ m
      | Error m \<Rightarrow> m)"

definition errorMessage :: "error \<Rightarrow> string" where
  "errorMessage e = (case e of AwsError rid m \<Rightarrow> m | Error m \<Rightarrow> m)"

definition listAvailableCustomizations ::
  "customizationProvider \<Rightarrow> state \<Rightarrow> customization list \<times> state" where
  "listAvailableCustomizations provider s =
     (case pageableToCollection (client provider (profileArn (providerProfile provider))) of
        Inr customizations \<Rightarrow> (customizations, s)
      | Inl e \<Rightarrow>
          ([], emit (LogError (''failed to listAvailableCustomizations: '' @ logMsg e) []) s))"

definition init :: "env \<Rightarrow> regionProfile \<Rightarrow> error + customizationProvider" where
  "init env p =
     (case createQClient env p of
        Inl e \<Rightarrow> Inl e
      | Inr c \<Rightarrow> Inr \<lparr>client = c, providerProfile = p, region = profileRegion p\<rparr>)"

text \<open>The loop \<^verbatim>\<open>for (const profile of profiles)\<close> of \<^verbatim>\<open>getAvailableCustomizationsList\<close>.\<close>

fun forProfiles ::
  "env \<Rightarrow> regionProfile list \<Rightarrow> customization list \<Rightarrow> state \<Rightarrow> customization list outcome \<times> state" where
  "forProfiles env [] items s = (Returned items, s)"
| "forProfiles env (p # ps) items s =
     (case init env p of
        Inl e \<Rightarrow> (Thrown e, s)
      | Inr provider \<Rightarrow>
          (case listAvailableCustomizations provider s of
             (customizations, s1) \<Rightarrow>
               forProfiles env ps (items @ map (\<lambda>c. c\<lparr>profile := Some p\<rparr>) customizations) s1))"

definition getAvailableCustomizationsList :: "env \<Rightarrow> state \<Rightarrow> customization list outcome \<times> state" where
  "getAvailableCustomizationsList env s =
     (case listRegionProfile env of
        Inl e \<Rightarrow>
          (Returned [],
           emit (LogError ''Failed to list customizations because listAvailableProfiles failed %s''
                   [StrArg (errorMessage e)]) s)
      | Inr profiles \<Rightarrow> forProfiles env profiles [] s)"

subsection \<open>Picker items\<close>

definition renderDescriptionText :: "string \<Rightarrow> bool \<Rightarrow> string" where
  "renderDescriptionText lbl isNewCustomization = (if isNewCustomization then ''   New'' else [])"

definition createBaseCustomizationItem :: "env \<Rightarrow> state \<Rightarrow> dataQuickPickItem" where
  "createBaseCustomizationItem env s =
     (let lbl = codicon env ''Amazon Q foundation (Default)'';
          selectedArn = arn (getSelectedCustomization s)
      in \<lparr>label = lbl,
          click = ClickBase,
          detail = Some ''Receive suggestions from Amazon Q base model'',
          itemDescription = renderDescriptionText lbl False,
          data = None,
          recentlyUsed = (selectedArn = arn baseCustomization)\<rparr>)"

text \<open>
  \<^verbatim>\<open>customization.profile.name\<close>: reading \<^verbatim>\<open>name\<close> of a missing \<^verbatim>\<open>profile\<close> throws.
\<close>

definition profileNameOf :: "customization \<Rightarrow> string outcome" where
  "profileNameOf c =
     (case profile c of
        None \<Rightarrow> Thrown (Error ''Cannot read properties of undefined (reading 'name')'')
      | Some p \<Rightarrow> Returned (profileName p))"

text \<open>The local \<^verbatim>\<open>displayedName\<close> of \<^verbatim>\<open>createCustomizationItem\<close>, after \<^verbatim>\<open>parse\<close>.\<close>

definition displayedName :: "env \<Rightarrow> customization \<Rightarrow> bool \<Rightarrow> string outcome" where
  "displayedName env c shouldPrefixAccountId =
     (case parseAccountId env (arn c) of
        Inl e \<Rightarrow> Thrown e
      | Inr accountId \<Rightarrow>
          if truthy (name c) then
            if shouldPrefixAccountId then
              if accountId \<noteq> [] then Returned (str (name c) @ '' ('' @ accountId @ '')'')
              else (case profileNameOf c of
                      Thrown e \<Rightarrow> Thrown e
                    | Returned pn \<Rightarrow> Returned (str (name c) @ '' ('' @ pn @ '')''))
            else (case profileNameOf c of
                    Thrown e \<Rightarrow> Thrown e
                  | Returned pn \<Rightarrow> Returned (str (name c) @ '' ('' @ pn @ '')''))
          else Returned ''unknown'')"

definition createCustomizationItem ::
  "env \<Rightarrow> customization \<Rightarrow> string list \<Rightarrow> bool \<Rightarrow> state \<Rightarrow> dataQuickPickItem outcome" where
  "createCustomizationItem env c persistedArns shouldPrefixAccountId s =
     (case displayedName env c shouldPrefixAccountId of
        Thrown e \<Rightarrow> Thrown e
      | Returned dn \<Rightarrow>
          let isNewCustomization = arn c \<notin> set persistedArns;
              lbl = codicon env dn;
              selectedArn = arn (getSelectedCustomization s)
          in Returned
               \<lparr>label = lbl,
                click = ClickCustomization c,
                detail = (if description c \<noteq> Some [] then description c
                          else Some ''No description provided''),
                itemDescription = renderDescriptionText lbl isNewCustomization,
                data = Some (arn c),
                recentlyUsed = (selectedArn = arn c)\<rparr>)"

text \<open>The \<^verbatim>\<open>reduce\<close> that counts how many available customizations carry each name.\<close>

definition customizationNameToCount :: "customization list \<Rightarrow> (string \<rightharpoonup> nat)" where
  "customizationNameToCount availableCustomizations =
     foldl (\<lambda>m c.
              case name c of
                None \<Rightarrow> m
              | Some n \<Rightarrow>
                  if n \<noteq> [] then m(n \<mapsto> (case m n of None \<Rightarrow> 0 | Some k \<Rightarrow> k) + 1) else m)
       Map.empty availableCustomizations"

definition shouldPrefixAccountId :: "(string \<rightharpoonup> nat) \<Rightarrow> customization \<Rightarrow> bool" where
  "shouldPrefixAccountId nameToCount c =
     (case name c of
        None \<Rightarrow> False
      | Some n \<Rightarrow>
          if n \<noteq> [] then (case nameToCount n of None \<Rightarrow> 0 | Some k \<Rightarrow> k) > 1 else False)"

text \<open>\<^verbatim>\<open>availableCustomizations.map(...)\<close> with a callback that may throw: the first throw ends it.\<close>

fun mapOutcome :: "('a \<Rightarrow> 'b outcome) \<Rightarrow> 'a list \<Rightarrow> 'b list outcome" where
  "mapOutcome f [] = Returned []"
| "mapOutcome f (x # xs) =
     (case f x of
        Thrown e \<Rightarrow> Thrown e
      | Returned y \<Rightarrow>
          (case mapOutcome f xs of Thrown e \<Rightarrow> Thrown e | Returned ys \<Rightarrow> Returned (y # ys)))"

text \<open>Lines 302 to 325 of \<^verbatim>\<open>createCustomizationItems\<close>: the items of a non-empty list.\<close>

definition customizationItems ::
  "env \<Rightarrow> customization list \<Rightarrow> customization list \<Rightarrow> state \<Rightarrow> dataQuickPickItem list outcome" where
  "customizationItems env availableCustomizations persistedCustomizations s =
     (let persistedArns = map arn persistedCustomizations;
          nameToCount = customizationNameToCount availableCustomizations;
          baseItem = createBaseCustomizationItem env s
      in case mapOutcome
                (\<lambda>c. createCustomizationItem env c persistedArns (shouldPrefixAccountId nameToCount c) s)
                availableCustomizations of
           Thrown e \<Rightarrow> Thrown e
         | Returned its \<Rightarrow> Returned (baseItem # its))"

subsection \<open>Applying a selection\<close>

definition selectCustomization :: "customization \<Rightarrow> state \<Rightarrow> state" where
  "selectCustomization c s =
     (let selectedCustomization = getSelectedCustomization s
      in if arn selectedCustomization = arn c then s
         else
           let s1 = setSelectedCustomization c False s;
               suffix = (if arn c = arn baseCustomization then str (name c)
                         else str (name c) @ '' customization.'')
           in emit (ShowInformationMessage
                      (''Amazon Q suggestions are now coming from the '' @ suffix) []) s1)"

text \<open>
  Modelled from the spec: \<^verbatim>\<open>regionProfileManager.switchRegionProfile(profile, 'customization')\<close>
  is not part of the sources. It makes the target the active scope or fails; the change
  event it raises carries the intent \<^verbatim>\<open>customization\<close>, which \<open>onProfileChangedListener\<close>
  skips.
\<close>

definition switchRegionProfile :: "env \<Rightarrow> regionProfile \<Rightarrow> string \<Rightarrow> state \<Rightarrow> unit outcome \<times> state" where
  "switchRegionProfile env p reason s =
     (case switchRegionProfileFails env p of
        Some e \<Rightarrow> (Thrown e, s)
      | None \<Rightarrow> (Returned (), emit (SwitchRegionProfile p reason) (s\<lparr>activeRegionProfile := Some p\<rparr>)))"

text \<open>The two \<^verbatim>\<open>onClick\<close> closures of the items.\<close>

definition onClick :: "env \<Rightarrow> clickAction \<Rightarrow> state \<Rightarrow> unit outcome \<times> state" where
  "onClick env a s =
     (case a of
        ClickBase \<Rightarrow> (Returned (), selectCustomization baseCustomization s)
      | ClickCustomization c \<Rightarrow>
          (case activeRegionProfile s of
             None \<Rightarrow> (Returned (), selectCustomization c s)
           | Some active \<Rightarrow>
               (case profile c of
                  None \<Rightarrow> (Thrown (Error ''Cannot read properties of undefined (reading 'arn')''), s)
                | Some cp \<Rightarrow>
                    if profileArn cp \<noteq> profileArn active then
                      (case switchRegionProfile env cp ''customization'' s of
                         (Thrown e, s1) \<Rightarrow> (Thrown e, s1)
                       | (Returned u, s1) \<Rightarrow> (Returned (), selectCustomization c s1))
                    else (Returned (), selectCustomization c s))))"

text \<open>
  Modelled from the spec: \<^verbatim>\<open>showQuickPick\<close> of \<^verbatim>\<open>shared/ui/pickerPrompter\<close> is not part of
  the sources. It shows the items and yields the selected item or a cancellation; the
  selected item's \<^verbatim>\<open>onClick\<close> runs. An index past the end of the items selects nothing.
  The order in which the picker displays the items does not matter here: the user's pick
  is an index into the items as they were built. When building the items throws, the
  picker is not shown and \<open>showCustomizationPrompt\<close> throws the same error.
\<close>

definition showQuickPick ::
  "env \<Rightarrow> dataQuickPickItem list \<Rightarrow> nat option \<Rightarrow> state \<Rightarrow> unit outcome \<times> state" where
  "showQuickPick env its pick s =
     (let s1 = emit (ShowQuickPick its) s
      in case pick of
           None \<Rightarrow> (Returned (), s1)
         | Some i \<Rightarrow> if i < length its then onClick env (click (its ! i)) s1 else (Returned (), s1))"

subsection \<open>Falling back to the base customization, and the picker\<close>

definition selectCustomizationLabel :: string where
  "selectCustomizationLabel = ''Select Another Customization''"

definition notAvailableMessage :: string where
  "notAvailableMessage =
     ''Selected Amazon Q customization is not available. Contact your administrator. Your instance of Amazon Q is using the foundation model.''"

text \<open>
  \<open>switchToBaseCustomizationAndNotify\<close> opens the picker when the user asks for it, the
  picker builds its items, and building the items falls back to the base customization
  when the selection is not available: the three functions call each other. Each warning
  consumes one answer of the user.
\<close>

fun switchToBaseCustomizationAndNotify :: "env \<Rightarrow> warningResponse \<Rightarrow> state \<Rightarrow> unit outcome \<times> state"
and showCustomizationPrompt :: "env \<Rightarrow> promptResponse \<Rightarrow> state \<Rightarrow> unit outcome \<times> state"
and createCustomizationItems ::
  "env \<Rightarrow> warningResponse \<Rightarrow> state \<Rightarrow> dataQuickPickItem list outcome \<times> state" where
  "switchToBaseCustomizationAndNotify env Dismissed s =
     (let s1 = setSelectedCustomization baseCustomization False s;
          s2 = emit (ShowWarningMessage notAvailableMessage [selectCustomizationLabel]) s1
      in (Returned (), s2))"
| "switchToBaseCustomizationAndNotify env (SelectAnother r) s =
     (let s1 = setSelectedCustomization baseCustomization False s;
          s2 = emit (ShowWarningMessage notAvailableMessage [selectCustomizationLabel]) s1
      in showCustomizationPrompt env r s2)"
| "showCustomizationPrompt env (PromptResponse w pick) s =
     (let s1 = setNewCustomizationsAvailable 0 s
      in case createCustomizationItems env w s1 of
           (Thrown e, s2) \<Rightarrow> (Thrown e, s2)
         | (Returned its, s2) \<Rightarrow> showQuickPick env its pick s2)"
| "createCustomizationItems env w s =
     (case getAvailableCustomizationsList env s of
        (Thrown e, s1) \<Rightarrow> (Thrown e, s1)
      | (Returned availableCustomizations, s1) \<Rightarrow>
          let persistedCustomizations = getPersistedCustomizations s1;
              s2 = setPersistedCustomizations availableCustomizations s1;
              selectedCustomization = getSelectedCustomization s2;
              validated =
                (if \<not> isSelectedCustomizationAvailable availableCustomizations selectedCustomization
                 then switchToBaseCustomizationAndNotify env w s2
                 else (Returned (), s2))
          in (case validated of
                (Thrown e, s3) \<Rightarrow> (Thrown e, s3)
              | (Returned u, s3) \<Rightarrow>
                  if length availableCustomizations = 0 then
                    (Returned [createBaseCustomizationItem env s3],
                     emit (ShowMessageWithUrl
                             ''You dont have access to any Amazon Q customization. Contact your admin for access.''
                             (customLearnMoreUri env) ''Learn More'') s3)
                  else (customizationItems env availableCustomizations persistedCustomizations s3, s3)))"

subsection \<open>Reacting to a profile change and to a new listing\<close>

text \<open>\<^verbatim>\<open>customizations.map((it) => it.name)\<close> inside a template literal: joined by commas.\<close>

fun joinNames :: "string option list \<Rightarrow> string" where
  "joinNames [] = []"
| "joinNames [x] = (case x of None \<Rightarrow> [] | Some v \<Rightarrow> v)"
| "joinNames (x # y # ys) = (case x of None \<Rightarrow> [] | Some v \<Rightarrow> v) @ '','' @ joinNames (y # ys)"

definition onProfileChangedListener ::
  "env \<Rightarrow> warningResponse \<Rightarrow> profileChangedEvent \<Rightarrow> state \<Rightarrow> unit outcome \<times> state" where
  "onProfileChangedListener env w event s =
     (if intent event = ''customization'' then (Returned (), s)
      else case eventProfile event of
        None \<Rightarrow> (Returned (), setSelectedCustomization baseCustomization False s)
      | Some p \<Rightarrow>
          let selectedCustomization = getSelectedCustomization s
          in if length (arn selectedCustomization) > 0 then
               (case init env p of
                  Inl e \<Rightarrow> (Thrown e, s)
                | Inr customizationProvider \<Rightarrow>
                    (case listAvailableCustomizations customizationProvider s of
                       (customizations, s1) \<Rightarrow>
                         (case find (\<lambda>it. arn it = arn selectedCustomization) customizations of
                            None \<Rightarrow>
                              switchToBaseCustomizationAndNotify env w
                                (emit (LogDebug
                                   (''profile '' @ profileName p @ '' doesnt have access to customization ''
                                     @ str (name selectedCustomization) @ '' but has access to ''
                                     @ joinNames (map name customizations))) s1)
                          | Some r \<Rightarrow> (Returned (), s1))))
             else (Returned (), s))"


subsection \<open>Observations on a run\<close>





text \<open>
  What one scope contributes to the aggregate list: the customizations of its listing,
  each tagged with the scope, when the listing succeeds, and nothing when it fails.
\<close>

definition itemsOfScope :: "env \<Rightarrow> regionProfile \<Rightarrow> customization list" where
  "itemsOfScope env p =
     (case createQClient env p of
        Inl e \<Rightarrow> []
      | Inr c \<Rightarrow>
          (case pageableToCollection (c (profileArn p)) of
             Inl e \<Rightarrow> []
           | Inr customizations \<Rightarrow> map (\<lambda>c. c\<lparr>profile := Some p\<rparr>) customizations))"

text \<open>The labels of the items that were built; none when building them threw.\<close>

definition itemLabels :: "dataQuickPickItem list outcome \<Rightarrow> string list" where
  "itemLabels r = (case r of Returned its \<Rightarrow> map label its | Thrown e \<Rightarrow> [])"

text \<open>How many of the available customizations carry the display name \<open>n\<close>.\<close>

definition nameCount :: "customization list \<Rightarrow> string \<Rightarrow> nat" where
  "nameCount available n = length (filter (\<lambda>d. name d = Some n) available)"

subsection \<open>Sample inputs\<close>

text \<open>
  The account id of an ARN as the ARN parser of the AWS SDK reads it: an ARN has at least
  six segments separated by colons, the first is \<^verbatim>\<open>arn\<close> and the fifth is the account id.
\<close>

fun splitColon :: "string \<Rightarrow> string list" where
  "splitColon [] = [[]]"
| "splitColon (c # cs) =
     (if c = CHR '':'' then [] # splitColon cs
      else (case splitColon cs of [] \<Rightarrow> [[c]] | seg # segs \<Rightarrow> (c # seg) # segs))"

definition arnAccountId :: "string \<Rightarrow> error + string" where
  "arnAccountId a =
     (let segments = splitColon a
      in if length segments < 6 \<or> hd segments \<noteq> ''arn'' then Inl (Error ''Malformed ARN'')
         else Inr (segments ! 4))"

definition profileAlpha :: regionProfile where
  "profileAlpha =
     \<lparr>profileName = ''Alpha'', profileRegion = ''us-east-1'',
      profileArn = ''arn:aws:codewhisperer:us-east-1:111122223333:profile/ALPHA''\<rparr>"

definition profileBeta :: regionProfile where
  "profileBeta =
     \<lparr>profileName = ''Beta'', profileRegion = ''us-east-1'',
      profileArn = ''arn:aws:codewhisperer:us-east-1:111122223333:profile/BETA''\<rparr>"

definition profileGamma :: regionProfile where
  "profileGamma =
     \<lparr>profileName = ''Gamma'', profileRegion = ''eu-central-1'',
      profileArn = ''arn:aws:codewhisperer:eu-central-1:444455556666:profile/GAMMA''\<rparr>"

definition fooAlpha :: customization where
  "fooAlpha =
     \<lparr>arn = ''arn:aws:codewhisperer:us-east-1:111122223333:customization/FOO'',
      name = Some ''Foo'', description = Some ''The first Foo'', profile = None\<rparr>"

definition fooGamma :: customization where
  "fooGamma =
     \<lparr>arn = ''arn:aws:codewhisperer:eu-central-1:444455556666:customization/FOO'',
      name = Some ''Foo'', description = Some [], profile = None\<rparr>"

definition barGamma :: customization where
  "barGamma =
     \<lparr>arn = ''arn:aws:codewhisperer:eu-central-1:444455556666:customization/BAR'',
      name = Some ''Bar'', description = None, profile = None\<rparr>"

definition xray :: customization where
  "xray =
     \<lparr>arn = ''arn:aws:codewhisperer:us-east-1:111122223333:customization/X'',
      name = Some ''Xray'', description = None, profile = None\<rparr>"

text \<open>
  A service with three scopes: the listing of \<open>Alpha\<close> has one page, the listing of
  \<open>Beta\<close> fails, and the listing of \<open>Gamma\<close> has two pages.
\<close>

definition sampleClient :: codeWhispererUserClient where
  "sampleClient a =
     (if a = profileArn profileAlpha then [Inr [fooAlpha]]
      else if a = profileArn profileBeta then [Inl (AwsError ''req-42'' ''Rate exceeded'')]
      else [Inr [fooGamma], Inr [barGamma]])"

definition sampleEnv :: env where
  "sampleEnv =
     \<lparr>listRegionProfile = Inr [profileAlpha, profileBeta, profileGamma],
      createQClient = (\<lambda>p. Inr sampleClient),
      switchRegionProfileFails = (\<lambda>p. None),
      parseAccountId = arnAccountId,
      codicon = (\<lambda>text. ''$(circuit-board) '' @ text),
      newCustomizationMessage = ''New customizations are available.'',
      customLearnMoreUri = ''https://docs.aws.amazon.com/'',
      updateRejects = (\<lambda>key. None)\<rparr>"

text \<open>The same service when no client can be created for \<open>Beta\<close>.\<close>

definition failingEnv :: env where
  "failingEnv =
     sampleEnv\<lparr>createQClient :=
       (\<lambda>p. if p = profileBeta then Inl (Error ''No valid SSO connection'') else Inr sampleClient)\<rparr>"

text \<open>The same service when no client can be created for \<open>Gamma\<close>.\<close>

definition noGammaClientEnv :: env where
  "noGammaClientEnv =
     sampleEnv\<lparr>createQClient :=
       (\<lambda>p. if p = profileGamma then Inl (Error ''unsupported region'') else Inr sampleClient)\<rparr>"



text \<open>
  A signed-in user who has selected \<open>xray\<close>, which the system has also applied as an
  override, and the same store when the connection is no valid enterprise SSO connection.
\<close>

definition signedIn :: state where
  "signedIn =
     \<lparr>isCustomizationFeatureEnabled = True,
      isValidEnterpriseSsoInUse = True,
      conn = Some ''sso'',
      activeRegionProfile = Some profileAlpha,
      selectedCustomizationStore = [''sso'' \<mapsto> xray],
      overrideV2 = Some (arn xray),
      persistedCustomizationsStore = [''sso'' \<mapsto> [fooAlpha]],
      newCustomizations = 0,
      isFreeTierLimitReached = True,
      effects = []\<rparr>"

definition signedOut :: state where
  "signedOut = signedIn\<lparr>isValidEnterpriseSsoInUse := False\<rparr>"


definition unnamedSelected :: state where
  "unnamedSelected = signedIn\<lparr>selectedCustomizationStore := [''sso'' \<mapsto> xray\<lparr>name := None\<rparr>]\<rparr>"

text \<open>The aggregate list of the sample service, and a change of the profile to \<open>Gamma\<close>.\<close>

definition sampleAvailable :: "customization list" where
  "sampleAvailable =
     [fooAlpha\<lparr>profile := Some profileAlpha\<rparr>,
      fooGamma\<lparr>profile := Some profileGamma\<rparr>,
      barGamma\<lparr>profile := Some profileGamma\<rparr>]"




section \<open>Properties\<close>

subsection \<open>New customizations\<close>

text \<open>
  C1. For every list of available customizations, \<open>getNewCustomizations\<close> returns exactly
  the elements of the available list whose \<open>arn\<close> is not an \<open>arn\<close> of the persisted
  snapshot; the result is empty when the two sets of identifiers are equal; and it keeps
  the order of the available list (it is the available list filtered, hence a
  subsequence of it).
\<close>

theorem getNewCustomizations_spec:
  "set (getNewCustomizations available s)
     = {c \<in> set available. arn c \<notin> arn ` set (getPersistedCustomizations s)}
   \<and> getNewCustomizations available s
     = filter (\<lambda>c. arn c \<notin> arn ` set (getPersistedCustomizations s)) available
   \<and> (arn ` set available = arn ` set (getPersistedCustomizations s)
        \<longrightarrow> getNewCustomizations available s = [])
   \<and> subseq (getNewCustomizations available s) available"
  by (auto simp: getNewCustomizations_def filter_empty_conv)

theorem getNewCustomizations_spec_witness:
  "arn ` set [fooAlpha] = arn ` set (getPersistedCustomizations signedIn)
   \<and> getNewCustomizations [fooAlpha] signedIn = []"
proof -
  have h: "arn ` set [fooAlpha] = arn ` set (getPersistedCustomizations signedIn)"
    by (simp add: getPersistedCustomizations_def signedIn_def)
  from getNewCustomizations_spec [of "[fooAlpha]" signedIn] h show ?thesis by blast
qed

text \<open>The scenario of the specification: available \<open>A, B\<close> and persisted \<open>A\<close> give \<open>B\<close>.\<close>

lemma getNewCustomizations_scenario:
  "getPersistedCustomizations signedIn = [fooAlpha]
   \<and> getNewCustomizations [fooAlpha, barGamma] signedIn = [barGamma]"
  by (simp add: getNewCustomizations_def getPersistedCustomizations_def signedIn_def
      fooAlpha_def barGamma_def)

subsection \<open>Availability of the selection\<close>

text \<open>
  C4. \<open>isSelectedCustomizationAvailable\<close> is true whenever the selected \<open>arn\<close> is the
  empty string, whatever the available list holds; for a non-empty \<open>arn\<close> it is true
  exactly when that \<open>arn\<close> occurs among the identifiers of the available list.
\<close>

theorem isSelectedCustomizationAvailable_spec:
  "(arn selected = [] \<longrightarrow> isSelectedCustomizationAvailable available selected)
   \<and> (arn selected \<noteq> [] \<longrightarrow>
        isSelectedCustomizationAvailable available selected = (arn selected \<in> arn ` set available))"
  by (simp add: isSelectedCustomizationAvailable_def)

theorem isSelectedCustomizationAvailable_spec_witness:
  "arn baseCustomization = [] \<and> isSelectedCustomizationAvailable [fooAlpha] baseCustomization
   \<and> arn barGamma \<noteq> [] \<and> \<not> isSelectedCustomizationAvailable [fooAlpha] barGamma
   \<and> isSelectedCustomizationAvailable [fooAlpha, barGamma] barGamma"
proof -
  have h: "arn baseCustomization = []" "arn barGamma \<noteq> []"
    "arn barGamma \<notin> arn ` set [fooAlpha]" "arn barGamma \<in> arn ` set [fooAlpha, barGamma]"
    by (simp_all add: baseCustomization_def barGamma_def fooAlpha_def)
  from isSelectedCustomizationAvailable_spec [of baseCustomization "[fooAlpha]"]
    isSelectedCustomizationAvailable_spec [of barGamma "[fooAlpha]"]
    isSelectedCustomizationAvailable_spec [of barGamma "[fooAlpha, barGamma]"] h
  show ?thesis by blast
qed

subsection \<open>Reading and writing the selection\<close>

text \<open>
  C3. Calling \<open>setSelectedCustomization\<close> with \<open>isOverride = True\<close> and a customization
  whose \<open>arn\<close> equals the last applied override leaves the whole state as it is: the
  selection record and the override marker are not written, the limit-reached flag is
  not cleared, and no refresh command is executed.
\<close>

theorem setSelectedCustomization_override_idempotent:
  "overrideV2 s = Some (arn c) \<Longrightarrow> setSelectedCustomization c True s = s"
  by (simp add: setSelectedCustomization_def split: option.splits)

theorem setSelectedCustomization_override_idempotent_witness:
  "isValidEnterpriseSsoInUse signedIn \<and> conn signedIn = Some ''sso''
   \<and> isFreeTierLimitReached signedIn
   \<and> overrideV2 signedIn = Some (arn xray)
   \<and> setSelectedCustomization xray True signedIn = signedIn"
proof -
  have h: "overrideV2 signedIn = Some (arn xray)" by (simp add: signedIn_def)
  from setSelectedCustomization_override_idempotent [OF h] h
  show ?thesis by (simp add: signedIn_def)
qed

text \<open>
  C10. Without a valid enterprise SSO connection \<open>setSelectedCustomization\<close> returns at
  once for every customization, with or without \<open>isOverride\<close>, and leaves the whole state
  as it is (selection record, override marker, limit-reached flag, no refresh command);
  \<open>setPersistedCustomizations\<close> leaves the snapshot as it is, and
  \<open>getPersistedCustomizations\<close> returns the empty list.
\<close>

theorem no_connection_frame:
  "\<not> isValidEnterpriseSsoInUse s \<or> conn s = None \<Longrightarrow>
     setSelectedCustomization c isOverride s = s
     \<and> setPersistedCustomizations cs s = s
     \<and> getPersistedCustomizations s = []"
  by (auto simp: setSelectedCustomization_def setPersistedCustomizations_def
      getPersistedCustomizations_def)

theorem no_connection_frame_witness:
  "\<not> isValidEnterpriseSsoInUse signedOut
   \<and> persistedCustomizationsStore signedOut ''sso'' = Some [fooAlpha]
   \<and> setSelectedCustomization barGamma True signedOut = signedOut
   \<and> setSelectedCustomization barGamma False signedOut = signedOut
   \<and> setPersistedCustomizations [barGamma] signedOut = signedOut
   \<and> getPersistedCustomizations signedOut = []"
proof -
  have h: "\<not> isValidEnterpriseSsoInUse signedOut \<or> conn signedOut = None"
    by (simp add: signedOut_def)
  have p: "persistedCustomizationsStore signedOut ''sso'' = Some [fooAlpha]"
    by (simp add: signedOut_def signedIn_def)
  have v: "\<not> isValidEnterpriseSsoInUse signedOut" by (simp add: signedOut_def)
  from no_connection_frame [OF h, of barGamma True "[barGamma]"]
    no_connection_frame [OF h, of barGamma False "[barGamma]"] v p
  show ?thesis by blast
qed

lemma name_not_empty:
  "x \<noteq> Some [] \<Longrightarrow> x = None \<or> (\<exists>n. x = Some n \<and> n \<noteq> ([] :: string))"
  by (cases x) auto

text \<open>
  C9, as the claim states it, fails for a stored selection that has no name: the test of
  the source is \<^verbatim>\<open>name !== ''\<close>, which a missing name passes, so the stored entry is
  returned and is neither the base customization nor a customization with a non-empty
  name.
\<close>

theorem getSelectedCustomization_unnamed_counterexample:
  "selectedCustomizationStore unnamedSelected ''sso'' = Some (xray\<lparr>name := None\<rparr>)
   \<and> getSelectedCustomization unnamedSelected = xray\<lparr>name := None\<rparr>
   \<and> name (getSelectedCustomization unnamedSelected) = None
   \<and> getSelectedCustomization unnamedSelected \<noteq> baseCustomization"
  by (simp add: getSelectedCustomization_def unnamedSelected_def signedIn_def xray_def
      baseCustomization_def)

text \<open>
  C9, amended. \<open>getSelectedCustomization\<close> returns the base customization when the feature
  is disabled or there is no valid identity, and also when the stored selection map has no
  entry for the label of the connection or the name of the stored entry is the empty
  string. In every case the value returned is the base customization or the stored entry
  of the connection, and the name of that entry is a non-empty string or is missing.
\<close>

theorem getSelectedCustomization_spec:
  "((\<not> isCustomizationFeatureEnabled s \<or> \<not> isValidEnterpriseSsoInUse s \<or> conn s = None)
      \<longrightarrow> getSelectedCustomization s = baseCustomization)
   \<and> (\<forall>l. conn s = Some l \<and> selectedCustomizationStore s l = None
          \<longrightarrow> getSelectedCustomization s = baseCustomization)
   \<and> (\<forall>l c. conn s = Some l \<and> selectedCustomizationStore s l = Some c \<and> name c = Some []
          \<longrightarrow> getSelectedCustomization s = baseCustomization)
   \<and> (getSelectedCustomization s = baseCustomization
        \<or> (\<exists>l c. conn s = Some l \<and> selectedCustomizationStore s l = Some c
              \<and> getSelectedCustomization s = c
              \<and> (name c = None \<or> (\<exists>n. name c = Some n \<and> n \<noteq> []))))"
  by (auto simp: getSelectedCustomization_def split: option.splits dest: name_not_empty)

theorem getSelectedCustomization_spec_witness:
  "\<not> isCustomizationFeatureEnabled (signedIn\<lparr>isCustomizationFeatureEnabled := False\<rparr>)
   \<and> getSelectedCustomization (signedIn\<lparr>isCustomizationFeatureEnabled := False\<rparr>) = baseCustomization
   \<and> conn (signedIn\<lparr>selectedCustomizationStore := Map.empty\<rparr>) = Some ''sso''
   \<and> getSelectedCustomization (signedIn\<lparr>selectedCustomizationStore := Map.empty\<rparr>) = baseCustomization
   \<and> name (xray\<lparr>name := Some []\<rparr>) = Some []
   \<and> getSelectedCustomization
        (signedIn\<lparr>selectedCustomizationStore := [''sso'' \<mapsto> xray\<lparr>name := Some []\<rparr>]\<rparr>)
       = baseCustomization
   \<and> getSelectedCustomization signedIn \<noteq> baseCustomization
   \<and> selectedCustomizationStore signedIn ''sso'' = Some (getSelectedCustomization signedIn)
   \<and> name (getSelectedCustomization signedIn) \<noteq> Some []"
proof -
  let ?off = "signedIn\<lparr>isCustomizationFeatureEnabled := False\<rparr>"
  let ?none = "signedIn\<lparr>selectedCustomizationStore := Map.empty\<rparr>"
  let ?unnamed = "signedIn\<lparr>selectedCustomizationStore := [''sso'' \<mapsto> xray\<lparr>name := Some []\<rparr>]\<rparr>"
  have h1: "\<not> isCustomizationFeatureEnabled ?off" by (simp add: signedIn_def)
  have h2: "conn ?none = Some ''sso'' \<and> selectedCustomizationStore ?none ''sso'' = None"
    by (simp add: signedIn_def)
  have h3: "conn ?unnamed = Some ''sso''
      \<and> selectedCustomizationStore ?unnamed ''sso'' = Some (xray\<lparr>name := Some []\<rparr>)
      \<and> name (xray\<lparr>name := Some []\<rparr>) = Some []"
    by (simp add: signedIn_def)
  have h4: "getSelectedCustomization signedIn \<noteq> baseCustomization"
    by (simp add: getSelectedCustomization_def signedIn_def xray_def baseCustomization_def)
  have h5: "conn signedIn = Some ''sso''" by (simp add: signedIn_def)
  from getSelectedCustomization_spec [of ?off] h1
  have c1: "getSelectedCustomization ?off = baseCustomization" by blast
  from getSelectedCustomization_spec [of ?none] h2
  have c2: "getSelectedCustomization ?none = baseCustomization" by blast
  from getSelectedCustomization_spec [of ?unnamed] h3
  have c3: "getSelectedCustomization ?unnamed = baseCustomization" by blast
  from getSelectedCustomization_spec [of signedIn] h4 h5
  have c4: "selectedCustomizationStore signedIn ''sso'' = Some (getSelectedCustomization signedIn)
      \<and> name (getSelectedCustomization signedIn) \<noteq> Some []" by auto
  from h1 h2 h3 h4 c1 c2 c3 c4 show ?thesis by blast
qed


subsection \<open>Listing across scopes\<close>




lemma forProfiles_items:
  "\<forall>p \<in> set ps. \<exists>c. createQClient env p = Inr c \<Longrightarrow>
     fst (forProfiles env ps items s) = Returned (items @ concat (map (itemsOfScope env) ps))"
proof (induction ps arbitrary: items s)
  case Nil
  then show ?case by simp
next
  case (Cons p ps)
  then obtain c where c: "createQClient env p = Inr c" by auto
  let ?provider = "\<lparr>client = c, providerProfile = p, region = profileRegion p\<rparr>"
  obtain cs s1 where l: "listAvailableCustomizations ?provider s = (cs, s1)"
    by (cases "listAvailableCustomizations ?provider s")
  have cs: "map (\<lambda>c. c\<lparr>profile := Some p\<rparr>) cs = itemsOfScope env p"
    using l c by (auto simp: listAvailableCustomizations_def itemsOfScope_def split: sum.splits)
  from Cons.prems have "\<forall>p \<in> set ps. \<exists>c. createQClient env p = Inr c" by simp
  from Cons.IH [OF this]
  have "fst (forProfiles env ps (items @ itemsOfScope env p) s1)
          = Returned ((items @ itemsOfScope env p) @ concat (map (itemsOfScope env) ps))" .
  with c l cs show ?case by (simp add: init_def)
qed

lemma forProfiles_Thrown:
  "fst (forProfiles env ps items s) = Thrown e \<Longrightarrow> \<exists>p \<in> set ps. createQClient env p = Inl e"
proof (induction ps arbitrary: items s)
  case Nil
  then show ?case by simp
next
  case (Cons p ps)
  show ?case
  proof (cases "createQClient env p")
    case (Inl e')
    with Cons.prems show ?thesis by (simp add: init_def)
  next
    case (Inr c)
    let ?provider = "\<lparr>client = c, providerProfile = p, region = profileRegion p\<rparr>"
    obtain cs s1 where l: "listAvailableCustomizations ?provider s = (cs, s1)"
      by (cases "listAvailableCustomizations ?provider s")
    from Cons.prems Inr l
    have "fst (forProfiles env ps (items @ map (\<lambda>c. c\<lparr>profile := Some p\<rparr>) cs) s1) = Thrown e"
      by (simp add: init_def)
    from Cons.IH [OF this] show ?thesis by simp
  qed
qed

text \<open>
  The aggregate listing throws only the error of a client that cannot be created; a
  failure to enumerate the scopes is logged and answered with the empty list.
\<close>

lemma getAvailableCustomizationsList_Thrown:
  "fst (getAvailableCustomizationsList env s) = Thrown e \<Longrightarrow>
     \<exists>profiles. listRegionProfile env = Inr profiles \<and> (\<exists>p \<in> set profiles. createQClient env p = Inl e)"
  by (cases "listRegionProfile env")
    (auto simp: getAvailableCustomizationsList_def dest: forProfiles_Thrown)

lemma getAvailableCustomizationsList_no_scopes:
  "listRegionProfile env = Inl e \<Longrightarrow> fst (getAvailableCustomizationsList env s) = Returned []"
  by (simp add: getAvailableCustomizationsList_def)

lemma forProfiles_throws:
  "p \<in> set ps \<Longrightarrow> createQClient env p = Inl e' \<Longrightarrow>
     \<exists>e. fst (forProfiles env ps items s) = Thrown e"
proof (induction ps arbitrary: items s)
  case Nil
  then show ?case by simp
next
  case (Cons q ps)
  show ?case
  proof (cases "createQClient env q")
    case (Inl e0)
    then show ?thesis by (simp add: init_def)
  next
    case (Inr c)
    with Cons.prems have "p \<in> set ps" by auto
    let ?provider = "\<lparr>client = c, providerProfile = q, region = profileRegion q\<rparr>"
    obtain cs s1 where l: "listAvailableCustomizations ?provider s = (cs, s1)"
      by (cases "listAvailableCustomizations ?provider s")
    from Cons.IH [OF \<open>p \<in> set ps\<close> Cons.prems(2)]
    obtain e where "fst (forProfiles env ps (items @ map (\<lambda>c. c\<lparr>profile := Some q\<rparr>) cs) s1) = Thrown e"
      by blast
    with Inr l show ?thesis by (simp add: init_def)
  qed
qed

text \<open>
  C5, as the claim states it, fails when no client can be created for another scope: the
  listing of \<open>Beta\<close> fails and is logged, there is no client for \<open>Gamma\<close>, and the
  error of the client escapes \<open>getAvailableCustomizationsList\<close>.
\<close>

theorem getAvailableCustomizationsList_escape_counterexample:
  "listRegionProfile noGammaClientEnv = Inr [profileAlpha, profileBeta, profileGamma]
   \<and> pageableToCollection (sampleClient (profileArn profileBeta))
       = Inl (AwsError ''req-42'' ''Rate exceeded'')
   \<and> getAvailableCustomizationsList noGammaClientEnv signedIn
       = (Thrown (Error ''unsupported region''),
          emit (LogError
                  ''failed to listAvailableCustomizations: requestId=req-42; message=Rate exceeded'' [])
            signedIn)"
  by (simp add: getAvailableCustomizationsList_def noGammaClientEnv_def sampleEnv_def init_def
      listAvailableCustomizations_def sampleClient_def logMsg_def
      profileAlpha_def profileBeta_def profileGamma_def)

text \<open>
  C5, amended. Let the scopes be enumerated. When a client can be created for each of
  them, \<open>getAvailableCustomizationsList\<close> returns, and does not throw, the items of the
  scopes whose listing succeeded, each tagged with its scope, in the order of the scopes: a
  scope whose listing fails contributes nothing. When no client can be created for one of
  the scopes, the operation throws; and whatever it throws is the error of a client that
  could not be created. For a single scope, \<open>listAvailableCustomizations\<close> answers an
  error of the listing with the empty list and one logged error.
\<close>

theorem getAvailableCustomizationsList_partial_failure:
  "(listRegionProfile env = Inr profiles \<and> (\<forall>p \<in> set profiles. \<exists>c. createQClient env p = Inr c)
      \<longrightarrow> fst (getAvailableCustomizationsList env s)
            = Returned (concat (map (itemsOfScope env) profiles)))
   \<and> (listRegionProfile env = Inr profiles \<and> q \<in> set profiles \<and> createQClient env q = Inl e'
      \<longrightarrow> (\<exists>e. fst (getAvailableCustomizationsList env s) = Thrown e))
   \<and> (fst (getAvailableCustomizationsList env s) = Thrown escaped
      \<longrightarrow> (\<exists>ps. listRegionProfile env = Inr ps \<and> (\<exists>p \<in> set ps. createQClient env p = Inl escaped)))
   \<and> (pageableToCollection (client provider (profileArn (providerProfile provider))) = Inl e
      \<longrightarrow> listAvailableCustomizations provider s
            = ([], emit (LogError (''failed to listAvailableCustomizations: '' @ logMsg e) []) s))"
proof (intro conjI impI)
  assume "listRegionProfile env = Inr profiles \<and> (\<forall>p \<in> set profiles. \<exists>c. createQClient env p = Inr c)"
  then show "fst (getAvailableCustomizationsList env s)
            = Returned (concat (map (itemsOfScope env) profiles))"
    using forProfiles_items [of profiles env "[]" s]
    by (simp add: getAvailableCustomizationsList_def)
next
  assume "listRegionProfile env = Inr profiles \<and> q \<in> set profiles \<and> createQClient env q = Inl e'"
  then show "\<exists>e. fst (getAvailableCustomizationsList env s) = Thrown e"
    using forProfiles_throws [of q profiles env e' "[]" s]
    by (simp add: getAvailableCustomizationsList_def)
next
  assume "fst (getAvailableCustomizationsList env s) = Thrown escaped"
  then show "\<exists>ps. listRegionProfile env = Inr ps \<and> (\<exists>p \<in> set ps. createQClient env p = Inl escaped)"
    by (rule getAvailableCustomizationsList_Thrown)
next
  assume "pageableToCollection (client provider (profileArn (providerProfile provider))) = Inl e"
  then show "listAvailableCustomizations provider s
            = ([], emit (LogError (''failed to listAvailableCustomizations: '' @ logMsg e) []) s)"
    by (simp add: listAvailableCustomizations_def)
qed

theorem getAvailableCustomizationsList_partial_failure_witness:
  "listRegionProfile sampleEnv = Inr [profileAlpha, profileBeta, profileGamma]
   \<and> pageableToCollection (sampleClient (profileArn profileBeta))
       = Inl (AwsError ''req-42'' ''Rate exceeded'')
   \<and> itemsOfScope sampleEnv profileBeta = []
   \<and> fst (getAvailableCustomizationsList sampleEnv signedIn) = Returned sampleAvailable
   \<and> listAvailableCustomizations
        \<lparr>client = sampleClient, providerProfile = profileBeta, region = ''us-east-1''\<rparr> signedIn
       = ([], emit (LogError
                ''failed to listAvailableCustomizations: requestId=req-42; message=Rate exceeded'' [])
              signedIn)
   \<and> listRegionProfile noGammaClientEnv = Inr [profileAlpha, profileBeta, profileGamma]
   \<and> createQClient noGammaClientEnv profileGamma = Inl (Error ''unsupported region'')
   \<and> (\<exists>e. fst (getAvailableCustomizationsList noGammaClientEnv signedIn) = Thrown e)
   \<and> fst (getAvailableCustomizationsList failingEnv signedIn) = Thrown (Error ''No valid SSO connection'')
   \<and> (\<exists>p. createQClient failingEnv p = Inl (Error ''No valid SSO connection''))"
proof -
  let ?provider = "\<lparr>client = sampleClient, providerProfile = profileBeta, region = ''us-east-1''\<rparr>"
  let ?profiles = "[profileAlpha, profileBeta, profileGamma]"
  have h1: "listRegionProfile sampleEnv = Inr ?profiles"
    by (simp add: sampleEnv_def)
  have h2: "\<forall>p \<in> set ?profiles. \<exists>c. createQClient sampleEnv p = Inr c"
    by (simp add: sampleEnv_def)
  have h3: "pageableToCollection (client ?provider (profileArn (providerProfile ?provider)))
              = Inl (AwsError ''req-42'' ''Rate exceeded'')"
    by (simp add: sampleClient_def profileBeta_def profileAlpha_def)
  have a: "itemsOfScope sampleEnv profileAlpha = [fooAlpha\<lparr>profile := Some profileAlpha\<rparr>]"
    by (simp add: itemsOfScope_def sampleEnv_def sampleClient_def)
  have b: "itemsOfScope sampleEnv profileBeta = []"
    by (simp add: itemsOfScope_def sampleEnv_def sampleClient_def profileBeta_def profileAlpha_def)
  have g: "itemsOfScope sampleEnv profileGamma
             = [fooGamma\<lparr>profile := Some profileGamma\<rparr>, barGamma\<lparr>profile := Some profileGamma\<rparr>]"
    by (simp add: itemsOfScope_def sampleEnv_def sampleClient_def profileBeta_def profileAlpha_def
        profileGamma_def)
  have k1: "listRegionProfile noGammaClientEnv = Inr ?profiles"
    "profileGamma \<in> set ?profiles"
    "createQClient noGammaClientEnv profileGamma = Inl (Error ''unsupported region'')"
    by (simp_all add: noGammaClientEnv_def sampleEnv_def)
  have k2: "fst (getAvailableCustomizationsList failingEnv signedIn)
              = Thrown (Error ''No valid SSO connection'')"
    by (simp add: getAvailableCustomizationsList_def failingEnv_def sampleEnv_def init_def
        listAvailableCustomizations_def sampleClient_def profileAlpha_def profileBeta_def)
  from getAvailableCustomizationsList_partial_failure
         [where env = sampleEnv and profiles = ?profiles
            and provider = ?provider and e = "AwsError ''req-42'' ''Rate exceeded''"
            and s = signedIn] h1 h2 h3
  have "fst (getAvailableCustomizationsList sampleEnv signedIn)
          = Returned (concat (map (itemsOfScope sampleEnv) ?profiles))"
    and l: "listAvailableCustomizations ?provider signedIn
          = ([], emit (LogError (''failed to listAvailableCustomizations: ''
                         @ logMsg (AwsError ''req-42'' ''Rate exceeded'')) []) signedIn)"
    by blast+
  then have r: "fst (getAvailableCustomizationsList sampleEnv signedIn) = Returned sampleAvailable"
    by (simp add: a b g sampleAvailable_def)
  from getAvailableCustomizationsList_partial_failure
         [where env = noGammaClientEnv and profiles = ?profiles and q = profileGamma
            and e' = "Error ''unsupported region''" and s = signedIn] k1
  have t1: "\<exists>e. fst (getAvailableCustomizationsList noGammaClientEnv signedIn) = Thrown e"
    by blast
  from getAvailableCustomizationsList_partial_failure
         [where env = failingEnv and escaped = "Error ''No valid SSO connection''" and s = signedIn] k2
  have t2: "\<exists>p. createQClient failingEnv p = Inl (Error ''No valid SSO connection'')"
    by blast
  from h1 h3 b r l k1 k2 t1 t2 show ?thesis by (simp add: logMsg_def)
qed

subsection \<open>A failed fetch\<close>




lemma awaitSetNewCustomizationsAvailable_accepted:
  "updateRejects env newCustomizationsKey = None \<Longrightarrow>
     awaitSetNewCustomizationsAvailable env k s = (Returned (), setNewCustomizationsAvailable k s)"
  by (simp add: awaitSetNewCustomizationsAvailable_def)






subsection \<open>Applying a selection\<close>





subsection \<open>Labels of the picker items\<close>

lemma foldl_nameToCount:
  "n \<noteq> [] \<Longrightarrow>
   (case foldl (\<lambda>m c.
              case name c of
                None \<Rightarrow> m
              | Some n \<Rightarrow>
                  if n \<noteq> [] then m(n \<mapsto> (case m n of None \<Rightarrow> 0 | Some k \<Rightarrow> k) + 1) else m)
       m0 xs n of None \<Rightarrow> 0 | Some k \<Rightarrow> k)
     = (case m0 n of None \<Rightarrow> 0 | Some k \<Rightarrow> k) + nameCount xs n"
proof (induction xs arbitrary: m0)
  case Nil
  then show ?case by (simp add: nameCount_def)
next
  case (Cons x xs)
  show ?case
    using Cons.prems
    by (simp add: Cons.IH nameCount_def split: option.splits)
qed

lemma customizationNameToCount_count:
  "n \<noteq> [] \<Longrightarrow>
   (case customizationNameToCount available n of None \<Rightarrow> 0 | Some k \<Rightarrow> k) = nameCount available n"
  using foldl_nameToCount [of n Map.empty available]
  by (simp add: customizationNameToCount_def)

lemma shouldPrefixAccountId_iff:
  "name c = Some n \<Longrightarrow> n \<noteq> [] \<Longrightarrow>
   shouldPrefixAccountId (customizationNameToCount available) c = (1 < nameCount available n)"
  by (simp add: shouldPrefixAccountId_def customizationNameToCount_count)

lemma mapOutcome_Returned:
  "mapOutcome f xs = Returned ys \<Longrightarrow>
     length ys = length xs \<and> (\<forall>i < length xs. f (xs ! i) = Returned (ys ! i))"
proof (induction xs arbitrary: ys)
  case Nil
  then show ?case by simp
next
  case (Cons x xs)
  from Cons.prems obtain y ys' where
    y: "f x = Returned y" and ys': "mapOutcome f xs = Returned ys'" and ys: "ys = y # ys'"
    by (auto split: outcome.splits)
  from Cons.IH [OF ys'] have
    len: "length ys' = length xs" and nth: "\<forall>i < length xs. f (xs ! i) = Returned (ys' ! i)"
    by simp_all
  show ?case
  proof (intro conjI allI impI)
    show "length ys = length (x # xs)" using len ys by simp
  next
    fix i assume "i < length (x # xs)"
    then show "f ((x # xs) ! i) = Returned (ys ! i)"
      using y nth ys by (cases i) simp_all
  qed
qed

lemma createCustomizationItem_label:
  "createCustomizationItem env c persistedArns b s = Returned it \<Longrightarrow>
     \<exists>dn. displayedName env c b = Returned dn \<and> label it = codicon env dn"
  by (auto simp: createCustomizationItem_def Let_def split: outcome.splits)

text \<open>
  C7, as the claim states it, fails for a customization whose display name is unique: the
  only available customization is \<open>Bar\<close>, and its label is not the icon with \<open>Bar\<close> but
  carries the name of its profile as a suffix.
\<close>

theorem customizationItems_unique_name_counterexample:
  "nameCount [barGamma\<lparr>profile := Some profileGamma\<rparr>] ''Bar'' = 1
   \<and> itemLabels (customizationItems sampleEnv [barGamma\<lparr>profile := Some profileGamma\<rparr>] [] signedIn)
       = [''$(circuit-board) Amazon Q foundation (Default)'', ''$(circuit-board) Bar (Gamma)'']
   \<and> codicon sampleEnv ''Bar'' = ''$(circuit-board) Bar''"
  by (simp add: nameCount_def itemLabels_def customizationItems_def customizationNameToCount_def
      shouldPrefixAccountId_def createCustomizationItem_def displayedName_def profileNameOf_def
      createBaseCustomizationItem_def renderDescriptionText_def truthy_def str_def
      arnAccountId_def sampleEnv_def barGamma_def profileGamma_def Let_def)

text \<open>
  C7, amended. Let the items of a non-empty available list be built. Every customization
  with a non-empty display name gets a suffix in parentheses after its name in the label
  of its item. When at least two available customizations carry that name and the ARN of
  the customization names an account, the suffix is the account id; otherwise (the name is
  unique, or the ARN names no account) the suffix is the name of the profile the
  customization comes from.
\<close>

theorem customizationItems_labels:
  assumes its: "customizationItems env available persisted s = Returned its"
    and i: "i < length available"
    and n: "name (available ! i) = Some n" "n \<noteq> []"
  shows "length its = Suc (length available)
    \<and> (\<exists>suffix. label (its ! Suc i) = codicon env (n @ '' ('' @ suffix @ '')'')
          \<and> (if 1 < nameCount available n \<and> parseAccountId env (arn (available ! i)) \<noteq> Inr []
              then parseAccountId env (arn (available ! i)) = Inr suffix
              else \<exists>p. profile (available ! i) = Some p \<and> suffix = profileName p))"
proof -
  let ?f = "\<lambda>c. createCustomizationItem env c (map arn persisted)
                 (shouldPrefixAccountId (customizationNameToCount available) c) s"
  from its obtain ys where
    ys: "mapOutcome ?f available = Returned ys"
    and its_eq: "its = createBaseCustomizationItem env s # ys"
    by (auto simp: customizationItems_def Let_def split: outcome.splits)
  from mapOutcome_Returned [OF ys] i have
    len: "length ys = length available" and item: "?f (available ! i) = Returned (ys ! i)"
    by simp_all
  let ?c = "available ! i"
  have pre: "shouldPrefixAccountId (customizationNameToCount available) ?c = (1 < nameCount available n)"
    using n by (rule shouldPrefixAccountId_iff)
  from createCustomizationItem_label [OF item] obtain dn where
    dn: "displayedName env ?c (1 < nameCount available n) = Returned dn"
    and lbl: "label (ys ! i) = codicon env dn"
    unfolding pre by blast
  have t: "truthy (name ?c)" "str (name ?c) = n" using n by (simp_all add: truthy_def str_def)
  from dn t have
    "\<exists>suffix. dn = n @ '' ('' @ suffix @ '')''
          \<and> (if 1 < nameCount available n \<and> parseAccountId env (arn ?c) \<noteq> Inr []
              then parseAccountId env (arn ?c) = Inr suffix
              else \<exists>p. profile ?c = Some p \<and> suffix = profileName p)"
    by (auto simp: displayedName_def profileNameOf_def
        split: sum.splits if_splits option.splits outcome.splits)
  with lbl its_eq len show ?thesis by auto
qed

lemma sampleItems:
  "\<exists>its. customizationItems sampleEnv sampleAvailable [fooAlpha] signedIn = Returned its"
  by (simp add: customizationItems_def customizationNameToCount_def
      shouldPrefixAccountId_def createCustomizationItem_def displayedName_def profileNameOf_def
      truthy_def str_def arnAccountId_def sampleEnv_def sampleAvailable_def
      fooAlpha_def fooGamma_def barGamma_def Let_def)

theorem customizationItems_labels_witness:
  "nameCount sampleAvailable ''Foo'' = 2 \<and> nameCount sampleAvailable ''Bar'' = 1
   \<and> itemLabels (customizationItems sampleEnv sampleAvailable [fooAlpha] signedIn) ! 1
       = ''$(circuit-board) Foo (111122223333)''
   \<and> itemLabels (customizationItems sampleEnv sampleAvailable [fooAlpha] signedIn) ! 2
       = ''$(circuit-board) Foo (444455556666)''
   \<and> itemLabels (customizationItems sampleEnv sampleAvailable [fooAlpha] signedIn) ! 3
       = ''$(circuit-board) Bar (Gamma)''"
proof -
  from sampleItems obtain its where
    its: "customizationItems sampleEnv sampleAvailable [fooAlpha] signedIn = Returned its" by blast
  have c: "nameCount sampleAvailable ''Foo'' = 2" "nameCount sampleAvailable ''Bar'' = 1"
    by (simp_all add: nameCount_def sampleAvailable_def fooAlpha_def fooGamma_def barGamma_def)
  have len: "length sampleAvailable = 3" by (simp add: sampleAvailable_def)
  have n: "name (sampleAvailable ! 0) = Some ''Foo''" "name (sampleAvailable ! 1) = Some ''Foo''"
    "name (sampleAvailable ! 2) = Some ''Bar''"
    by (simp_all add: sampleAvailable_def fooAlpha_def fooGamma_def barGamma_def)
  have a: "parseAccountId sampleEnv (arn (sampleAvailable ! 0)) = Inr ''111122223333''"
    "parseAccountId sampleEnv (arn (sampleAvailable ! 1)) = Inr ''444455556666''"
    by (simp_all add: sampleEnv_def arnAccountId_def sampleAvailable_def fooAlpha_def fooGamma_def)
  have p: "profile (sampleAvailable ! 2) = Some profileGamma" "profileName profileGamma = ''Gamma''"
    by (simp_all add: sampleAvailable_def profileGamma_def)
  have k: "\<And>t. codicon sampleEnv t = ''$(circuit-board) '' @ t" by (simp add: sampleEnv_def)
  from customizationItems_labels [OF its, of 0 "''Foo''"] len n c a
  have l1: "label (its ! 1) = ''$(circuit-board) Foo (111122223333)''" and l: "length its = 4"
    by (auto simp: k)
  from customizationItems_labels [OF its, of 1 "''Foo''"] len n c a
  have l2: "label (its ! 2) = ''$(circuit-board) Foo (444455556666)''"
    by (auto simp: k numeral_2_eq_2)
  from customizationItems_labels [OF its, of 2 "''Bar''"] len n c p
  have l3: "label (its ! 3) = ''$(circuit-board) Bar (Gamma)''"
    by (auto simp: k numeral_3_eq_3)
  from its l l1 l2 l3 c show ?thesis by (simp add: itemLabels_def)
qed


subsection \<open>Reconciling after a profile change\<close>
















text \<open>A change to no profile writes the base customization and shows nothing.\<close>

lemma onProfileChangedListener_no_profile:
  "intent event \<noteq> ''customization'' \<Longrightarrow> eventProfile event = None \<Longrightarrow>
     onProfileChangedListener env w event s
       = (Returned (), setSelectedCustomization baseCustomization False s)"
  by (simp add: onProfileChangedListener_def)



end
